theory Spec2Isabelle
  imports Complex_Main "HOL-Library.Word" "HOL-Library.AList"
begin

unbundle bit_operations_syntax

section \<open>Values shared by the GUI classes\<close>

text \<open>
  A C++ \<open>int\<close> is modelled as \<open>int\<close>. The theorems hold for every integer, hence for
  every value a 32-bit \<open>int\<close> can take; where the C++ arithmetic could leave that range
  (the difference of two points, the conversion of a \<open>double\<close>), the source clamps the
  result afterwards. Integer division in C++ truncates towards zero; HOL's \<open>div\<close> rounds
  down.
\<close>

definition cdiv :: "int \<Rightarrow> int \<Rightarrow> int" where
  "cdiv a b = sgn a * sgn b * (\<bar>a\<bar> div \<bar>b\<bar>)"

definition qBound :: "int \<Rightarrow> int \<Rightarrow> int \<Rightarrow> int" where
  \<comment> \<open>\<open>qBound(min, val, max)\<close> of QtGlobal: \<open>qMax(min, qMin(max, val))\<close>\<close>
  "qBound lo v hi = max lo (min hi v)"

record QPoint =
  xp :: int
  yp :: int

record QSize =
  wd :: int
  ht :: int

definition isEmpty :: "QSize \<Rightarrow> bool" where
  \<comment> \<open>\<open>QSize::isEmpty\<close>: either dimension below 1\<close>
  "isEmpty s = (wd s < 1 \<or> ht s < 1)"

text \<open>
  \<open>QRect\<close> stores its two corners; \<open>setX\<close> moves the left edge only, \<open>setWidth\<close> moves
  the right edge, and likewise for the vertical direction.
\<close>

record QRect =
  x1 :: int
  y1 :: int
  x2 :: int
  y2 :: int

definition width :: "QRect \<Rightarrow> int" where
  "width r = x2 r - x1 r + 1"

definition height :: "QRect \<Rightarrow> int" where
  "height r = y2 r - y1 r + 1"

definition setX :: "int \<Rightarrow> QRect \<Rightarrow> QRect" where
  "setX v r = r\<lparr>x1 := v\<rparr>"

definition setY :: "int \<Rightarrow> QRect \<Rightarrow> QRect" where
  "setY v r = r\<lparr>y1 := v\<rparr>"

definition setWidth :: "int \<Rightarrow> QRect \<Rightarrow> QRect" where
  "setWidth w r = r\<lparr>x2 := x1 r + w - 1\<rparr>"

definition setHeight :: "int \<Rightarrow> QRect \<Rightarrow> QRect" where
  "setHeight h r = r\<lparr>y2 := y1 r + h - 1\<rparr>"

definition topLeft :: "QRect \<Rightarrow> QPoint" where
  "topLeft r = \<lparr>xp = x1 r, yp = y1 r\<rparr>"

text \<open>
  The \<open>double\<close> arithmetic of the coordinate conversions is kept abstract: the type
  \<open>'d\<close> stands for \<open>double\<close> and the record below gives the five operations the
  source uses on it. Every theorem about the conversions holds for any such operations,
  so none depends on how the hardware rounds.
\<close>

record 'd fpu =
  of_i :: "int \<Rightarrow> 'd"          \<comment> \<open>conversion \<open>int\<close> to \<open>double\<close>\<close>
  fmul :: "'d \<Rightarrow> 'd \<Rightarrow> 'd"     \<comment> \<open>\<open>*\<close> on \<open>double\<close>\<close>
  fdiv :: "'d \<Rightarrow> 'd \<Rightarrow> 'd"     \<comment> \<open>\<open>/\<close> on \<open>double\<close>\<close>
  to_i :: "'d \<Rightarrow> int"          \<comment> \<open>conversion \<open>double\<close> to \<open>int\<close> (truncation)\<close>
  qRound :: "'d \<Rightarrow> int"        \<comment> \<open>\<open>qRound\<close> of QtGlobal\<close>

definition exact_fpu :: "real fpu" where
  \<comment> \<open>exact real arithmetic: agrees with \<open>double\<close> wherever no rounding occurs\<close>
  "exact_fpu = \<lparr>of_i = of_int, fmul = (*), fdiv = (/),
     to_i = (\<lambda>q. if 0 \<le> q then \<lfloor>q\<rfloor> else \<lceil>q\<rceil>),
     qRound = (\<lambda>q. if 0 \<le> q then \<lfloor>q + 1 / 2\<rfloor> else \<lceil>q - 1 / 2\<rceil>)\<rparr>"

definition scaled :: "'d fpu \<Rightarrow> QSize \<Rightarrow> 'd \<Rightarrow> QSize" where
  \<comment> \<open>\<open>operator*(const QSize &, qreal)\<close>: each dimension multiplied and rounded\<close>
  "scaled F s c = \<lparr>wd = qRound F (fmul F (of_i F (wd s)) c),
                   ht = qRound F (fmul F (of_i F (ht s)) c)\<rparr>"

subsection \<open>JSON values\<close>

text \<open>
  A \<open>QJsonObject\<close> is an association list from keys to values; \<open>obj[key] = v\<close> is
  \<open>AList.update\<close> and a lookup is \<open>map_of\<close>. A serialised document
  (\<open>QJsonDocument(obj).toJson()\<close>) is represented by the document it serialises.
\<close>

datatype json =
    JNull
  | JBool bool
  | JInt int
  | JString string
  | JArray "json list"
  | JObject "(string \<times> json) list"

type_synonym QJsonObject = "(string \<times> json) list"

definition jset :: "string \<Rightarrow> json \<Rightarrow> QJsonObject \<Rightarrow> QJsonObject" where
  "jset k v obj = AList.update k v obj"

definition jget :: "QJsonObject \<Rightarrow> string \<Rightarrow> json" where
  \<comment> \<open>\<open>obj[key]\<close> on a const object: the value, or null when the key is absent\<close>
  "jget obj k = (case map_of obj k of None \<Rightarrow> JNull | Some v \<Rightarrow> v)"

fun toString :: "json \<Rightarrow> string" where
  "toString (JString s) = s"
| "toString _ = []"

fun toBool :: "json \<Rightarrow> bool" where
  "toBool (JBool b) = b"
| "toBool _ = False"

fun toArray :: "json \<Rightarrow> json list" where
  "toArray (JArray xs) = xs"
| "toArray _ = []"

fun toObject :: "json \<Rightarrow> QJsonObject" where
  "toObject (JObject obj) = obj"
| "toObject _ = []"

section \<open>Qt enumerations used by the input code\<close>

text \<open>
  The values of \<open>Qt::Key\<close> and \<open>Qt::MouseButton\<close> are those of Qt's public header
  \<open>qnamespace.h\<close>; the repository only names them. \<open>EventType\<close> lists the members of
  \<open>QEvent::Type\<close> that the handlers tell apart.
\<close>

definition Key_Escape :: int where "Key_Escape = 0x01000000"
definition Key_Tab :: int where "Key_Tab = 0x01000001"
definition Key_Backspace :: int where "Key_Backspace = 0x01000003"
definition Key_Return :: int where "Key_Return = 0x01000004"
definition Key_Enter :: int where "Key_Enter = 0x01000005"
definition Key_Insert :: int where "Key_Insert = 0x01000006"
definition Key_Delete :: int where "Key_Delete = 0x01000007"
definition Key_Home :: int where "Key_Home = 0x01000010"
definition Key_End :: int where "Key_End = 0x01000011"
definition Key_Left :: int where "Key_Left = 0x01000012"
definition Key_Up :: int where "Key_Up = 0x01000013"
definition Key_Right :: int where "Key_Right = 0x01000014"
definition Key_Down :: int where "Key_Down = 0x01000015"
definition Key_PageUp :: int where "Key_PageUp = 0x01000016"
definition Key_PageDown :: int where "Key_PageDown = 0x01000017"
definition Key_Shift :: int where "Key_Shift = 0x01000020"
definition Key_Control :: int where "Key_Control = 0x01000021"
definition Key_Alt :: int where "Key_Alt = 0x01000023"
definition Key_CapsLock :: int where "Key_CapsLock = 0x01000024"
definition Key_F1 :: int where "Key_F1 = 0x01000030"
definition Key_F2 :: int where "Key_F2 = 0x01000031"
definition Key_F3 :: int where "Key_F3 = 0x01000032"
definition Key_F4 :: int where "Key_F4 = 0x01000033"
definition Key_F5 :: int where "Key_F5 = 0x01000034"
definition Key_F6 :: int where "Key_F6 = 0x01000035"
definition Key_F7 :: int where "Key_F7 = 0x01000036"
definition Key_F8 :: int where "Key_F8 = 0x01000037"
definition Key_F9 :: int where "Key_F9 = 0x01000038"
definition Key_F10 :: int where "Key_F10 = 0x01000039"
definition Key_F11 :: int where "Key_F11 = 0x0100003a"
definition Key_F12 :: int where "Key_F12 = 0x0100003b"
definition Key_Space :: int where "Key_Space = 0x20"
definition Key_0 :: int where "Key_0 = 0x30"
definition Key_9 :: int where "Key_9 = 0x39"
definition Key_A :: int where "Key_A = 0x41"
definition Key_Z :: int where "Key_Z = 0x5a"

type_synonym MouseButton = "32 word"

definition NoButton :: MouseButton where "NoButton = 0x00"
definition LeftButton :: MouseButton where "LeftButton = 0x01"
definition RightButton :: MouseButton where "RightButton = 0x02"
definition MiddleButton :: MouseButton where "MiddleButton = 0x04"
definition XButton1 :: MouseButton where "XButton1 = 0x08"
definition XButton2 :: MouseButton where "XButton2 = 0x10"

datatype EventType =
    MouseButtonPress | MouseButtonRelease | MouseButtonDblClick | MouseMove
  | KeyPress | KeyRelease | OtherEvent

record QMouseEvent =
  mtype :: EventType
  pos :: QPoint
  button :: MouseButton

record QKeyEvent =
  ktype :: EventType
  key :: int
  isAutoRepeat :: bool

record QWheelEvent =
  angleDelta :: QPoint

section \<open>InputHandler (input/input\_handler.cpp)\<close>

text \<open>
  The fields of the class. The repeat timer is \<open>None\<close> while stopped and \<open>Some ms\<close>
  while running with interval \<open>ms\<close>. Signals are collected in emission order.
\<close>

record 'd InputHandler =
  m_inputCaptured :: bool
  m_pressedButtons :: "32 word"
  m_pressedKeys :: "int set"
  m_mouseSensitivity :: 'd
  m_keyboardRepeatDelay :: int
  m_keyboardRepeatRate :: int
  m_keyRepeatTimer :: "int option"
  m_lastPressedKey :: int
  m_lastMousePos :: QPoint
  m_remoteResolution :: QSize
  m_localResolution :: QSize
  m_zoomLevel :: 'd

datatype ih_signal =
    inputEventSent json
  | mouseEvent int int int bool
  | keyEvent int bool
  | wheelEvent int

definition InputHandler_sendMouseEvent :: "int \<Rightarrow> int \<Rightarrow> int \<Rightarrow> bool \<Rightarrow> ih_signal list" where
  "InputHandler_sendMouseEvent x y b pressed =
     (let eventData = jset ''pressed'' (JBool pressed) (jset ''button'' (JInt b)
            (jset ''y'' (JInt y) (jset ''x'' (JInt x) (jset ''type'' (JString ''mouse'') []))))
      in [inputEventSent (JObject eventData), mouseEvent x y b pressed])"

definition InputHandler_sendKeyEvent :: "int \<Rightarrow> bool \<Rightarrow> ih_signal list" where
  "InputHandler_sendKeyEvent k pressed =
     (let eventData = jset ''pressed'' (JBool pressed) (jset ''key'' (JInt k)
            (jset ''type'' (JString ''keyboard'') []))
      in [inputEventSent (JObject eventData), keyEvent k pressed])"

definition InputHandler_sendWheelEvent :: "int \<Rightarrow> ih_signal list" where
  "InputHandler_sendWheelEvent delta =
     (let eventData = jset ''delta'' (JInt delta) (jset ''type'' (JString ''wheel'') [])
      in [inputEventSent (JObject eventData), wheelEvent delta])"

definition InputHandler_convertQtKeyToRDP :: "int \<Rightarrow> int" where
  "InputHandler_convertQtKeyToRDP qtKey =
    (if qtKey = Key_Escape then 0x1B
     else if qtKey = Key_Tab then 0x09
     else if qtKey = Key_CapsLock then 0x14
     else if qtKey = Key_Shift then 0x10
     else if qtKey = Key_Control then 0x11
     else if qtKey = Key_Alt then 0x12
     else if qtKey = Key_Backspace then 0x08
     else if qtKey = Key_Return then 0x0D
     else if qtKey = Key_Enter then 0x0D
     else if qtKey = Key_Space then 0x20
     else if qtKey = Key_Left then 0x25
     else if qtKey = Key_Up then 0x26
     else if qtKey = Key_Right then 0x27
     else if qtKey = Key_Down then 0x28
     else if qtKey = Key_Insert then 0x2D
     else if qtKey = Key_Delete then 0x2E
     else if qtKey = Key_Home then 0x24
     else if qtKey = Key_End then 0x23
     else if qtKey = Key_PageUp then 0x21
     else if qtKey = Key_PageDown then 0x22
     else if qtKey = Key_F1 then 0x70
     else if qtKey = Key_F2 then 0x71
     else if qtKey = Key_F3 then 0x72
     else if qtKey = Key_F4 then 0x73
     else if qtKey = Key_F5 then 0x74
     else if qtKey = Key_F6 then 0x75
     else if qtKey = Key_F7 then 0x76
     else if qtKey = Key_F8 then 0x77
     else if qtKey = Key_F9 then 0x78
     else if qtKey = Key_F10 then 0x79
     else if qtKey = Key_F11 then 0x7A
     else if qtKey = Key_F12 then 0x7B
     else if qtKey \<ge> Key_A \<and> qtKey \<le> Key_Z then qtKey - Key_A + of_char CHR ''A''
     else if qtKey \<ge> Key_0 \<and> qtKey \<le> Key_9 then qtKey - Key_0 + of_char CHR ''0''
     else 0)"

definition switch_labels :: "int list" where
  \<comment> \<open>the \<open>case\<close> labels of the \<open>switch\<close> in \<open>InputHandler::convertQtKeyToRDP\<close>\<close>
  "switch_labels = [Key_Escape, Key_Tab, Key_CapsLock, Key_Shift, Key_Control, Key_Alt,
     Key_Backspace, Key_Return, Key_Enter, Key_Space, Key_Left, Key_Up, Key_Right, Key_Down,
     Key_Insert, Key_Delete, Key_Home, Key_End, Key_PageUp, Key_PageDown,
     Key_F1, Key_F2, Key_F3, Key_F4, Key_F5, Key_F6, Key_F7, Key_F8, Key_F9, Key_F10,
     Key_F11, Key_F12]"

definition Key_Meta :: int where "Key_Meta = 0x01000022"

definition InputHandler_convertQtMouseButton :: "MouseButton \<Rightarrow> int" where
  "InputHandler_convertQtMouseButton b =
    (if b = LeftButton then 1
     else if b = RightButton then 2
     else if b = MiddleButton then 4
     else if b = XButton1 then 8
     else if b = XButton2 then 16
     else 0)"

definition InputHandler_convertToRemoteCoordinates ::
    "'d fpu \<Rightarrow> 'd InputHandler \<Rightarrow> QPoint \<Rightarrow> QPoint" where
  "InputHandler_convertToRemoteCoordinates F s localPoint =
    (if isEmpty (m_remoteResolution s) \<or> isEmpty (m_localResolution s) then localPoint
     else
       let scaleX = fdiv F (of_i F (wd (m_remoteResolution s))) (of_i F (wd (m_localResolution s)));
           scaleY = fdiv F (of_i F (ht (m_remoteResolution s))) (of_i F (ht (m_localResolution s)));
           remoteX = to_i F (fmul F (fmul F (of_i F (xp localPoint)) scaleX) (m_zoomLevel s));
           remoteY = to_i F (fmul F (fmul F (of_i F (yp localPoint)) scaleY) (m_zoomLevel s))
       in \<lparr>xp = remoteX, yp = remoteY\<rparr>)"




definition handleMouseEvent ::
    "'d fpu \<Rightarrow> 'd InputHandler \<Rightarrow> QMouseEvent \<Rightarrow> 'd InputHandler \<times> ih_signal list" where
  "handleMouseEvent F s event =
    (if \<not> m_inputCaptured s then (s, [])
     else
       let remotePos = InputHandler_convertToRemoteCoordinates F s (pos event);
           (s1, out) =
             (case mtype event of
                MouseButtonPress \<Rightarrow>
                  (s\<lparr>m_pressedButtons := m_pressedButtons s OR button event\<rparr>,
                   InputHandler_sendMouseEvent (xp remotePos) (yp remotePos)
                     (InputHandler_convertQtMouseButton (button event)) True)
              | MouseButtonRelease \<Rightarrow>
                  (s\<lparr>m_pressedButtons := m_pressedButtons s AND NOT (button event)\<rparr>,
                   InputHandler_sendMouseEvent (xp remotePos) (yp remotePos)
                     (InputHandler_convertQtMouseButton (button event)) False)
              | MouseMove \<Rightarrow>
                  (s, if m_pressedButtons s \<noteq> NoButton
                      then InputHandler_sendMouseEvent (xp remotePos) (yp remotePos) 0 True
                      else [])
              | _ \<Rightarrow> (s, []))
       in (s1\<lparr>m_lastMousePos := pos event\<rparr>, out))"

definition handleKeyEvent ::
    "'d InputHandler \<Rightarrow> QKeyEvent \<Rightarrow> 'd InputHandler \<times> ih_signal list" where
  "handleKeyEvent s event =
    (if \<not> m_inputCaptured s then (s, [])
     else
       let rdpKey = InputHandler_convertQtKeyToRDP (key event) in
       if rdpKey = 0 then (s, [])
       else
         let pressed = (ktype event = KeyPress);
             s1 = (if pressed
                   then s\<lparr>m_pressedKeys := insert (key event) (m_pressedKeys s),
                          m_lastPressedKey := key event,
                          m_keyRepeatTimer :=
                            (if isAutoRepeat event then Some (m_keyboardRepeatRate s)
                             else Some (m_keyboardRepeatDelay s))\<rparr>
                   else s\<lparr>m_pressedKeys := m_pressedKeys s - {key event},
                          m_keyRepeatTimer := None\<rparr>)
         in (s1, InputHandler_sendKeyEvent rdpKey pressed))"

definition handleWheelEvent ::
    "'d InputHandler \<Rightarrow> QWheelEvent \<Rightarrow> 'd InputHandler \<times> ih_signal list" where
  "handleWheelEvent s event =
    (if \<not> m_inputCaptured s then (s, [])
     else
       let delta = cdiv (yp (angleDelta event)) 120
       in (s, InputHandler_sendWheelEvent delta))"

definition InputHandler_init :: "'d fpu \<Rightarrow> 'd InputHandler" where
  \<comment> \<open>the constructor; \<open>1.0\<close> is the \<open>double\<close> of the integer 1\<close>
  "InputHandler_init F =
     \<lparr>m_inputCaptured = False, m_pressedButtons = NoButton, m_pressedKeys = {},
      m_mouseSensitivity = of_i F 1, m_keyboardRepeatDelay = 500,
      m_keyboardRepeatRate = 30, m_keyRepeatTimer = None, m_lastPressedKey = 0,
      m_lastMousePos = \<lparr>xp = 0, yp = 0\<rparr>,
      m_remoteResolution = \<lparr>wd = 1024, ht = 768\<rparr>,
      m_localResolution = \<lparr>wd = 1024, ht = 768\<rparr>, m_zoomLevel = of_i F 1\<rparr>"

section \<open>RDPDisplayWidget (display/rdp\_display.cpp)\<close>

text \<open>
  The fields of the widget that are plain data, and \<open>rect_w\<close> for the rectangle
  \<open>QWidget::rect()\<close> returns. Field names carry the suffix \<open>_d\<close> where the
  input handler has a field of the same name.
\<close>

record 'd RDPDisplayWidget =
  m_zoomLevel_d :: 'd
  m_isFullscreen :: bool
  m_remoteResolution_d :: QSize
  m_widgetSize :: QSize
  m_mouseCaptured :: bool
  m_keyboardCaptured :: bool
  m_pressedButtons_d :: "32 word"
  m_useHardwareAcceleration :: bool
  rect_w :: QRect

definition RDPDisplayWidget_convertToRemoteCoordinates ::
    "'d fpu \<Rightarrow> 'd RDPDisplayWidget \<Rightarrow> QPoint \<Rightarrow> QPoint" where
  "RDPDisplayWidget_convertToRemoteCoordinates F s localPoint =
    (if isEmpty (m_remoteResolution_d s) then localPoint
     else
       let scaledSize = scaled F (m_remoteResolution_d s) (m_zoomLevel_d s);
           displayRect = rect_w s;
           displayRect =
             (if wd scaledSize < width displayRect
              then setWidth (wd scaledSize)
                     (setX (cdiv (width displayRect - wd scaledSize) 2) displayRect)
              else displayRect);
           displayRect =
             (if ht scaledSize < height displayRect
              then setHeight (ht scaledSize)
                     (setY (cdiv (height displayRect - ht scaledSize) 2) displayRect)
              else displayRect);
           relativePoint = \<lparr>xp = xp localPoint - xp (topLeft displayRect),
                            yp = yp localPoint - yp (topLeft displayRect)\<rparr>;
           remotePoint = \<lparr>xp = to_i F (fdiv F (of_i F (xp relativePoint)) (m_zoomLevel_d s)),
                          yp = to_i F (fdiv F (of_i F (yp relativePoint)) (m_zoomLevel_d s))\<rparr>;
           remotePoint = remotePoint\<lparr>xp := qBound 0 (xp remotePoint) (wd (m_remoteResolution_d s) - 1)\<rparr>;
           remotePoint = remotePoint\<lparr>yp := qBound 0 (yp remotePoint) (ht (m_remoteResolution_d s) - 1)\<rparr>
       in remotePoint)"






definition RDPDisplayWidget_init :: "'d fpu \<Rightarrow> QRect \<Rightarrow> 'd RDPDisplayWidget" where
  \<comment> \<open>the constructor, for a widget whose rectangle is \<open>r\<close>\<close>
  "RDPDisplayWidget_init F r =
     \<lparr>m_zoomLevel_d = of_i F 1, m_isFullscreen = False,
      m_remoteResolution_d = \<lparr>wd = 1024, ht = 768\<rparr>, m_widgetSize = \<lparr>wd = 800, ht = 600\<rparr>,
      m_mouseCaptured = False, m_keyboardCaptured = False, m_pressedButtons_d = NoButton,
      m_useHardwareAcceleration = True, rect_w = r\<rparr>"

section \<open>GoRDPBridge (utils/gordp\_bridge.cpp)\<close>

text \<open>
  The bridge owns a process, a WebSocket and a network manager. These are Qt objects:
  what the bridge reads from them (the socket state, the process state, whether a wait
  succeeded) is an argument of the function that reads it, and every call the bridge
  makes on them, and every signal it emits, is recorded in order as an \<open>action\<close>.
  The record holds the data members of the class. A slot that Qt invokes while such a
  call is waiting (\<open>onProcessFinished\<close>, \<open>onProcessError\<close>) is a handler of its own and
  not part of the function that waits.
\<close>

type_synonym QByteArray = "8 word list"

record GoRDPBridge =
  m_apiUrl :: string
  m_apiPort :: int
  m_isConnected :: bool
  m_apiRunning :: bool
  m_currentServer :: string
  m_currentPort :: int
  m_currentUsername :: string
  m_lastPerformanceStats :: QJsonObject

datatype SocketState =
    UnconnectedState | HostLookupState | ConnectingState | ConnectedState
  | BoundState | ListeningState | ClosingState

datatype ProcessState = NotRunning | Starting | Running

text \<open>
  A \<open>QImage\<close> is null or has a width, a height and its pixels; the signal
  \<open>bitmapReceived\<close> carries one.
\<close>

datatype QImage = NullImage | Image nat nat "32 word list"

datatype bridge_signal =
    connectionStatusChanged bool
  | connectionError string
  | bitmapReceived QImage
  | errorOccurred string
  | connectionHistoryLoaded "json list"
  | favoritesLoaded "json list"
  | performanceStatsReceived QJsonObject
  | apiStarted
  | apiStopped
  | apiError string

datatype action =
    Emit bridge_signal
  | ProcessStart string "string list"    \<comment> \<open>\<open>m_gordpProcess->start(program, arguments)\<close>\<close>
  | ProcessTerminate
  | ProcessKill
  | WebSocketOpen string                 \<comment> \<open>\<open>m_websocket->open(QUrl(url))\<close>\<close>
  | WebSocketClose
  | WebSocketSendText json               \<comment> \<open>\<open>m_websocket->sendTextMessage(doc.toJson())\<close>\<close>
  | HttpPost string string json          \<comment> \<open>URL, content-type header, body document\<close>
  | ReplyDeleteLater

subsection \<open>Decimal numbers in strings\<close>

definition digit_char :: "nat \<Rightarrow> char" where
  "digit_char d = ''0123456789'' ! d"

fun digits :: "nat \<Rightarrow> string" where
  "digits n = (if n < 10 then [digit_char n] else digits (n div 10) @ [digit_char (n mod 10)])"

definition number :: "int \<Rightarrow> string" where
  \<comment> \<open>\<open>QString::number(int)\<close>, also what \<open>QString::arg(int)\<close> substitutes\<close>
  "number i = (if i < 0 then CHR ''-'' # digits (nat (- i)) else digits (nat i))"

subsection \<open>Locating and starting the engine\<close>

record os_env =
  which_finished :: bool                 \<comment> \<open>\<open>waitForFinished()\<close> of \<open>which gordp-api\<close>\<close>
  which_exitCode :: int
  which_stdout :: string
  file_exists :: "string \<Rightarrow> bool"          \<comment> \<open>\<open>QFile::exists\<close>\<close>
  findExecutable :: "string \<Rightarrow> string"     \<comment> \<open>\<open>QStandardPaths::findExecutable\<close>\<close>
  waitForStarted :: "string \<Rightarrow> string list \<Rightarrow> bool"
                                         \<comment> \<open>\<open>waitForStarted()\<close> after \<open>start(program, arguments)\<close>\<close>

definition is_space :: "char \<Rightarrow> bool" where
  "is_space c = (c \<in> set [CHR '' '', CHR 0x09, CHR 0x0A, CHR 0x0B, CHR 0x0C, CHR 0x0D])"

definition trimmed :: "string \<Rightarrow> string" where
  "trimmed s = rev (dropWhile is_space (rev (dropWhile is_space s)))"

definition getGoRDPExecutablePath :: "os_env \<Rightarrow> string" where
  "getGoRDPExecutablePath env =
    (if which_finished env \<and> which_exitCode env = 0 then trimmed (which_stdout env)
     else
       let possiblePaths = [''./gordp-api'', ''../gordp-api'', ''bin/gordp-api'',
                            findExecutable env ''gordp-api'']
       in (case find (file_exists env) possiblePaths of Some path \<Rightarrow> path | None \<Rightarrow> []))"

definition GoRDPBridge_init :: GoRDPBridge where
  \<comment> \<open>the constructor; the members it does not initialise are given their empty values\<close>
  "GoRDPBridge_init =
     \<lparr>m_apiUrl = ''http://localhost:'' @ number 8080, m_apiPort = 8080,
      m_isConnected = False, m_apiRunning = False, m_currentServer = [],
      m_currentPort = 0, m_currentUsername = [], m_lastPerformanceStats = []\<rparr>"

definition setupWebSocket :: "GoRDPBridge \<Rightarrow> action list" where
  "setupWebSocket b =
     (let wsUrl = ''ws://localhost:'' @ number (m_apiPort b) @ ''/ws''
      in [WebSocketOpen wsUrl])"

definition startGoRDPAPI :: "os_env \<Rightarrow> GoRDPBridge \<Rightarrow> GoRDPBridge \<times> action list" where
  "startGoRDPAPI env b =
    (if m_apiRunning b then (b, [])
     else
       let executablePath = getGoRDPExecutablePath env in
       if executablePath = [] then (b, [Emit (apiError ''GoRDP executable not found'')])
       else
         let arguments = [''--api'', ''--port'', number (m_apiPort b)] in
         if waitForStarted env executablePath arguments
         then (b\<lparr>m_apiRunning := True\<rparr>,
               [ProcessStart executablePath arguments] @ setupWebSocket b @ [Emit apiStarted])
         else (b, [ProcessStart executablePath arguments,
                   Emit (apiError ''Failed to start GoRDP API server'')]))"

definition stopGoRDPAPI ::
    "ProcessState \<Rightarrow> (int \<Rightarrow> bool) \<Rightarrow> GoRDPBridge \<Rightarrow> GoRDPBridge \<times> action list" where
  \<comment> \<open>\<open>pstate\<close> is \<open>m_gordpProcess->state()\<close>, \<open>waitForFinished ms\<close> the result of that wait\<close>
  "stopGoRDPAPI pstate waitForFinished b =
    (let stop = (if pstate \<noteq> NotRunning
                 then ProcessTerminate # (if \<not> waitForFinished 5000 then [ProcessKill] else [])
                 else [])
     in (b\<lparr>m_apiRunning := False, m_isConnected := False\<rparr>,
         stop @ [WebSocketClose, Emit apiStopped]))"

subsection \<open>Requests and input events\<close>

definition sendHttpRequest :: "GoRDPBridge \<Rightarrow> string \<Rightarrow> QJsonObject \<Rightarrow> action list" where
  "sendHttpRequest b endpoint data =
     [HttpPost (m_apiUrl b @ endpoint) ''application/json'' (JObject data)]"

definition connectToServer ::
    "GoRDPBridge \<Rightarrow> string \<Rightarrow> int \<Rightarrow> string \<Rightarrow> string \<Rightarrow> QJsonObject
       \<Rightarrow> GoRDPBridge \<times> action list" where
  "connectToServer b server port username password options =
    (if \<not> m_apiRunning b then (b, [Emit (connectionError ''GoRDP API not running'')])
     else
       let b1 = b\<lparr>m_currentServer := server, m_currentPort := port,
                  m_currentUsername := username\<rparr>;
           requestData = jset ''password'' (JString password) (jset ''username'' (JString username)
             (jset ''port'' (JInt port) (jset ''server'' (JString server) [])));
           requestData = (if options \<noteq> [] then jset ''options'' (JObject options) requestData
                          else requestData)
       in (b1, sendHttpRequest b1 ''/api/connect'' requestData))"

definition GoRDPBridge_sendMouseEvent ::
    "SocketState \<Rightarrow> GoRDPBridge \<Rightarrow> int \<Rightarrow> int \<Rightarrow> int \<Rightarrow> bool \<Rightarrow> GoRDPBridge \<times> action list" where
  "GoRDPBridge_sendMouseEvent ws b x y btn pressed =
    (if ws = ConnectedState
     then let event = jset ''pressed'' (JBool pressed) (jset ''button'' (JInt btn)
                (jset ''y'' (JInt y) (jset ''x'' (JInt x) (jset ''type'' (JString ''mouse'') []))))
          in (b, [WebSocketSendText (JObject event)])
     else (b, []))"

definition GoRDPBridge_sendKeyEvent ::
    "SocketState \<Rightarrow> GoRDPBridge \<Rightarrow> int \<Rightarrow> bool \<Rightarrow> GoRDPBridge \<times> action list" where
  "GoRDPBridge_sendKeyEvent ws b k pressed =
    (if ws = ConnectedState
     then let event = jset ''pressed'' (JBool pressed) (jset ''key'' (JInt k)
                (jset ''type'' (JString ''keyboard'') []))
          in (b, [WebSocketSendText (JObject event)])
     else (b, []))"

definition GoRDPBridge_sendWheelEvent ::
    "SocketState \<Rightarrow> GoRDPBridge \<Rightarrow> int \<Rightarrow> GoRDPBridge \<times> action list" where
  "GoRDPBridge_sendWheelEvent ws b delta =
    (if ws = ConnectedState
     then let event = jset ''delta'' (JInt delta) (jset ''type'' (JString ''wheel'') [])
          in (b, [WebSocketSendText (JObject event)])
     else (b, []))"

subsection \<open>Replies and incoming messages\<close>

datatype NetworkError = NoError | NetworkFailure int

datatype QJsonParseError = NoParseError | ParseFailure

record QNetworkReply =
  error :: NetworkError
  errorString :: string
  readAll :: QByteArray

definition handleHttpResponse :: "GoRDPBridge \<Rightarrow> json \<Rightarrow> GoRDPBridge \<times> action list" where
  "handleHttpResponse b response =
    (let obj = toObject response;
         type = toString (jget obj ''type'')
     in if type = ''connection_status''
        then let connected = toBool (jget obj ''connected'')
             in (b\<lparr>m_isConnected := connected\<rparr>, [Emit (connectionStatusChanged connected)])
        else if type = ''error''
        then (b, [Emit (connectionError (toString (jget obj ''message'')))])
        else if type = ''history''
        then (b, [Emit (connectionHistoryLoaded (toArray (jget obj ''data'')))])
        else if type = ''favorites''
        then (b, [Emit (favoritesLoaded (toArray (jget obj ''data'')))])
        else if type = ''performance''
        then let stats = toObject (jget obj ''data'')
             in (b\<lparr>m_lastPerformanceStats := stats\<rparr>, [Emit (performanceStatsReceived stats)])
        else (b, []))"

definition onNetworkReplyFinished ::
    "(QByteArray \<Rightarrow> json \<times> QJsonParseError) \<Rightarrow> GoRDPBridge \<Rightarrow> QNetworkReply
       \<Rightarrow> GoRDPBridge \<times> action list" where
  \<comment> \<open>\<open>fromJson\<close> is \<open>QJsonDocument::fromJson\<close>: the document and the parse status\<close>
  "onNetworkReplyFinished fromJson b reply =
    (if error reply \<noteq> NoError
     then (b, [ReplyDeleteLater, Emit (connectionError (errorString reply))])
     else
       let (response, parseError) = fromJson (readAll reply) in
       if parseError \<noteq> NoParseError
       then (b, [ReplyDeleteLater, Emit (connectionError ''Invalid JSON response'')])
       else let (b1, out) = handleHttpResponse b response in (b1, ReplyDeleteLater # out))"

definition isNull :: "QImage \<Rightarrow> bool" where
  "isNull img = (img = NullImage)"

definition loadFromData :: "(QByteArray \<Rightarrow> QImage) \<Rightarrow> QByteArray \<Rightarrow> QImage \<Rightarrow> bool \<times> QImage" where
  \<comment> \<open>\<open>QImage::loadFromData\<close>: \<open>*this = fromData(data); return !isNull();\<close> where
      \<open>fromData\<close> is the image reader of Qt, null when it recognises no format\<close>
  "loadFromData fromData data img = (let img = fromData data in (\<not> isNull img, img))"

definition decodeBitmapData :: "(QByteArray \<Rightarrow> QImage) \<Rightarrow> QByteArray \<Rightarrow> QImage" where
  "decodeBitmapData fromData data =
     (let img = NullImage;
          (ok, img) = loadFromData fromData data img
      in if ok then img else NullImage)"

definition onWebSocketBinaryMessageReceived ::
    "(QByteArray \<Rightarrow> QImage) \<Rightarrow> GoRDPBridge \<Rightarrow> QByteArray \<Rightarrow> GoRDPBridge \<times> action list" where
  "onWebSocketBinaryMessageReceived fromData b message =
     (let img = decodeBitmapData fromData message
      in if \<not> isNull img then (b, [Emit (bitmapReceived img)]) else (b, []))"

section \<open>Sample inputs\<close>

text \<open>
  Concrete objects and environments on which the model is run. The readers and parsers
  among them stand in for the Qt functions of the same role; the properties below are
  proved for every reader, parser and environment.
\<close>

definition wide_rect :: QRect where
  \<comment> \<open>the rectangle of a widget 2000 pixels wide and 1000 high\<close>
  "wide_rect = \<lparr>x1 = 0, y1 = 0, x2 = 1999, y2 = 999\<rparr>"





definition found_env :: os_env where
  "found_env = \<lparr>which_finished = True, which_exitCode = 0,
      which_stdout = ''/usr/bin/gordp-api'' @ [CHR 0x0A],
      file_exists = (\<lambda>p. False), findExecutable = (\<lambda>n. []),
      waitForStarted = (\<lambda>p args. True)\<rparr>"

definition missing_env :: os_env where
  "missing_env = \<lparr>which_finished = True, which_exitCode = 1, which_stdout = [],
      file_exists = (\<lambda>p. False), findExecutable = (\<lambda>n. []),
      waitForStarted = (\<lambda>p args. False)\<rparr>"

definition broken_env :: os_env where
  "broken_env = \<lparr>which_finished = False, which_exitCode = 0, which_stdout = [],
      file_exists = (\<lambda>p. p = ''./gordp-api''), findExecutable = (\<lambda>n. []),
      waitForStarted = (\<lambda>p args. False)\<rparr>"

definition running_bridge :: GoRDPBridge where
  "running_bridge = GoRDPBridge_init\<lparr>m_apiRunning := True\<rparr>"

definition quick_exit :: "int \<Rightarrow> bool" where
  "quick_exit ms = (1000 \<le> ms)"

definition slow_exit :: "int \<Rightarrow> bool" where
  "slow_exit ms = (60000 \<le> ms)"

definition sample_fromJson :: "QByteArray \<Rightarrow> json \<times> QJsonParseError" where
  \<comment> \<open>a stand-in for \<open>QJsonDocument::fromJson\<close> used to run the model: it accepts the
      text \<open>{}\<close> and rejects everything else\<close>
  "sample_fromJson data =
     (if data = [0x7B, 0x7D] then (JObject [], NoParseError) else (JNull, ParseFailure))"

definition refused_reply :: QNetworkReply where
  "refused_reply = \<lparr>error = NetworkFailure 1, errorString = ''Connection refused'', readAll = []\<rparr>"

definition garbled_reply :: QNetworkReply where
  "garbled_reply = \<lparr>error = NoError, errorString = [], readAll = [0x3C, 0x68, 0x31, 0x3E]\<rparr>"

definition sample_fromData :: "QByteArray \<Rightarrow> QImage" where
  \<comment> \<open>a stand-in for Qt's image reader used to run the model: one byte for the width, one
      for the height, then one grey byte per pixel; anything else is no image\<close>
  "sample_fromData data =
     (case data of
        w # h # px \<Rightarrow>
          if 0 < unat w \<and> 0 < unat h \<and> length px = unat w * unat h
          then Image (unat w) (unat h) (map (\<lambda>g. push_bit 24 0xFF OR push_bit 16 (ucast g) OR push_bit 8 (ucast g) OR ucast g) px)
          else NullImage
      | _ \<Rightarrow> NullImage)"

section \<open>Properties\<close>

lemmas Key_defs =
  Key_Escape_def Key_Tab_def Key_Backspace_def Key_Return_def Key_Enter_def
  Key_Insert_def Key_Delete_def Key_Home_def Key_End_def Key_Left_def Key_Up_def
  Key_Right_def Key_Down_def Key_PageUp_def Key_PageDown_def Key_Shift_def
  Key_Control_def Key_Alt_def Key_CapsLock_def Key_F1_def Key_F2_def Key_F3_def
  Key_F4_def Key_F5_def Key_F6_def Key_F7_def Key_F8_def Key_F9_def Key_F10_def
  Key_F11_def Key_F12_def Key_Space_def Key_0_def Key_9_def Key_A_def Key_Z_def


subsection \<open>Key translation\<close>

lemma upto_letters:
  "[65..90::int] = [65,66,67,68,69,70,71,72,73,74,75,76,77,78,79,80,81,82,83,84,85,86,87,88,89,90]"
  by code_simp

lemma upto_digits: "[48..57::int] = [48,49,50,51,52,53,54,55,56,57]"
  by code_simp

lemma letter_cases:
  assumes "Key_A \<le> k" and "k \<le> Key_Z"
  shows "k \<in> set [65,66,67,68,69,70,71,72,73,74,75,76,77,78,79,80,81,82,83,84,85,86,87,88,89,90]"
proof -
  from assms have "65 \<le> k" and "k \<le> 90" by (simp_all add: Key_A_def Key_Z_def)
  then have "k \<in> set [65..90]" by (simp only: set_upto atLeastAtMost_iff)
  then show ?thesis by (simp only: upto_letters)
qed

lemma digit_cases:
  assumes "Key_0 \<le> k" and "k \<le> Key_9"
  shows "k \<in> set [48,49,50,51,52,53,54,55,56,57]"
proof -
  from assms have "48 \<le> k" and "k \<le> 57" by (simp_all add: Key_0_def Key_9_def)
  then have "k \<in> set [48..57]" by (simp only: set_upto atLeastAtMost_iff)
  then show ?thesis by (simp only: upto_digits)
qed

lemma letters_table:
  "\<forall>k\<in>set [65,66,67,68,69,70,71,72,73,74,75,76,77,78,79,80,81,82,83,84,85,86,87,88,89,90].
     InputHandler_convertQtKeyToRDP k = of_char (''ABCDEFGHIJKLMNOPQRSTUVWXYZ'' ! nat (k - Key_A))"
  by (simp add: InputHandler_convertQtKeyToRDP_def Key_defs)

lemma digits_table:
  "\<forall>k\<in>set [48,49,50,51,52,53,54,55,56,57].
     InputHandler_convertQtKeyToRDP k = of_char (''0123456789'' ! nat (k - Key_0))"
  by (simp add: InputHandler_convertQtKeyToRDP_def Key_defs)

lemma convert_letter:
  "Key_A \<le> k \<Longrightarrow> k \<le> Key_Z \<Longrightarrow>
   InputHandler_convertQtKeyToRDP k = of_char (''ABCDEFGHIJKLMNOPQRSTUVWXYZ'' ! nat (k - Key_A))"
  using letter_cases letters_table by blast

lemma convert_digit:
  "Key_0 \<le> k \<Longrightarrow> k \<le> Key_9 \<Longrightarrow>
   InputHandler_convertQtKeyToRDP k = of_char (''0123456789'' ! nat (k - Key_0))"
  using digit_cases digits_table by blast

lemma convert_function_keys:
  "map InputHandler_convertQtKeyToRDP
      [Key_F1, Key_F2, Key_F3, Key_F4, Key_F5, Key_F6, Key_F7, Key_F8, Key_F9, Key_F10,
       Key_F11, Key_F12]
    = [0x70, 0x71, 0x72, 0x73, 0x74, 0x75, 0x76, 0x77, 0x78, 0x79, 0x7A, 0x7B]"
  by (simp add: InputHandler_convertQtKeyToRDP_def Key_defs)

lemma convert_arrows:
  "map InputHandler_convertQtKeyToRDP [Key_Left, Key_Up, Key_Right, Key_Down]
    = [0x25, 0x26, 0x27, 0x28]"
  by (simp add: InputHandler_convertQtKeyToRDP_def Key_defs)

lemma convert_zero_iff:
  "(InputHandler_convertQtKeyToRDP k = 0) =
    (k \<notin> set switch_labels \<and> \<not> (Key_A \<le> k \<and> k \<le> Key_Z) \<and> \<not> (Key_0 \<le> k \<and> k \<le> Key_9))"
  by (auto simp: InputHandler_convertQtKeyToRDP_def switch_labels_def Key_defs)

lemma handleKeyEvent_unsupported:
  "InputHandler_convertQtKeyToRDP (key ev) = 0 \<Longrightarrow> handleKeyEvent s ev = (s, [])"
  by (simp add: handleKeyEvent_def)

text \<open>
  Claim C1. \<open>InputHandler::convertQtKeyToRDP\<close> returns, for a key from \<open>Key_A\<close> to
  \<open>Key_Z\<close>, the ASCII code of that upper-case letter; for a key from \<open>Key_0\<close> to
  \<open>Key_9\<close>, the ASCII code of that digit; for F1 to F12 the codes \<open>0x70\<close> to \<open>0x7B\<close>;
  for the arrows Left, Up, Right, Down the codes \<open>0x25\<close> to \<open>0x28\<close>; and 0 for every
  key that is neither a label of the switch nor a letter nor a digit. When the conversion
  gives 0, \<open>InputHandler::handleKeyEvent\<close> emits nothing and changes nothing.
\<close>

theorem convertQtKeyToRDP_table:
  "(Key_A \<le> k \<and> k \<le> Key_Z \<longrightarrow>
      InputHandler_convertQtKeyToRDP k = of_char (''ABCDEFGHIJKLMNOPQRSTUVWXYZ'' ! nat (k - Key_A)))
   \<and> (Key_0 \<le> k \<and> k \<le> Key_9 \<longrightarrow>
      InputHandler_convertQtKeyToRDP k = of_char (''0123456789'' ! nat (k - Key_0)))
   \<and> map InputHandler_convertQtKeyToRDP
        [Key_F1, Key_F2, Key_F3, Key_F4, Key_F5, Key_F6, Key_F7, Key_F8, Key_F9, Key_F10,
         Key_F11, Key_F12]
      = [0x70, 0x71, 0x72, 0x73, 0x74, 0x75, 0x76, 0x77, 0x78, 0x79, 0x7A, 0x7B]
   \<and> map InputHandler_convertQtKeyToRDP [Key_Left, Key_Up, Key_Right, Key_Down]
      = [0x25, 0x26, 0x27, 0x28]
   \<and> (k \<notin> set switch_labels \<and> \<not> (Key_A \<le> k \<and> k \<le> Key_Z) \<and> \<not> (Key_0 \<le> k \<and> k \<le> Key_9)
        \<longrightarrow> InputHandler_convertQtKeyToRDP k = 0)
   \<and> (InputHandler_convertQtKeyToRDP (key ev) = 0 \<longrightarrow> handleKeyEvent s ev = (s, []))"
  using convert_letter [of k] convert_digit [of k] convert_function_keys convert_arrows
    convert_zero_iff [of k] handleKeyEvent_unsupported [of ev s]
  by blast

theorem convertQtKeyToRDP_table_witness:
  "InputHandler_convertQtKeyToRDP (Key_A + 2) = of_char CHR ''C''
   \<and> InputHandler_convertQtKeyToRDP (Key_0 + 7) = of_char CHR ''7''
   \<and> InputHandler_convertQtKeyToRDP Key_Meta = 0
   \<and> handleKeyEvent ((InputHandler_init exact_fpu)\<lparr>m_inputCaptured := True\<rparr>)
        \<lparr>ktype = KeyPress, key = Key_Meta, isAutoRepeat = False\<rparr>
      = ((InputHandler_init exact_fpu)\<lparr>m_inputCaptured := True\<rparr>, [])"
proof -
  let ?s = "(InputHandler_init exact_fpu)\<lparr>m_inputCaptured := True\<rparr>"
  let ?ev = "\<lparr>ktype = KeyPress, key = Key_Meta, isAutoRepeat = False\<rparr>"
  note t = convertQtKeyToRDP_table [where ev = ?ev and s = ?s]
  have a: "InputHandler_convertQtKeyToRDP (Key_A + 2) = of_char CHR ''C''"
    using t [where k = "Key_A + 2"] by (simp add: Key_defs)
  have b: "InputHandler_convertQtKeyToRDP (Key_0 + 7) = of_char CHR ''7''"
    using t [where k = "Key_0 + 7"] by (simp add: Key_defs)
  have c: "InputHandler_convertQtKeyToRDP Key_Meta = 0"
    using t [where k = Key_Meta] by (simp add: Key_defs Key_Meta_def switch_labels_def)
  have d: "handleKeyEvent ((InputHandler_init exact_fpu)\<lparr>m_inputCaptured := True\<rparr>)
        \<lparr>ktype = KeyPress, key = Key_Meta, isAutoRepeat = False\<rparr>
      = ((InputHandler_init exact_fpu)\<lparr>m_inputCaptured := True\<rparr>, [])"
    using c t [where k = Key_Meta] by simp
  from a b c d show ?thesis by simp
qed

subsection \<open>Input that is not captured\<close>

text \<open>
  Claim C10. While \<open>m_inputCaptured\<close> is false, \<open>handleMouseEvent\<close>,
  \<open>handleKeyEvent\<close> and \<open>handleWheelEvent\<close> emit no signal and return the handler
  with every field as it was.
\<close>

theorem uncaptured_input_ignored:
  "\<not> m_inputCaptured s \<Longrightarrow>
     handleMouseEvent F s me = (s, []) \<and> handleKeyEvent s ke = (s, [])
     \<and> handleWheelEvent s we = (s, [])"
  by (simp add: handleMouseEvent_def handleKeyEvent_def handleWheelEvent_def)

theorem uncaptured_input_ignored_witness:
  "\<not> m_inputCaptured (InputHandler_init exact_fpu)
   \<and> handleMouseEvent exact_fpu (InputHandler_init exact_fpu)
        \<lparr>mtype = MouseButtonPress, pos = \<lparr>xp = 10, yp = 20\<rparr>, button = LeftButton\<rparr>
       = (InputHandler_init exact_fpu, [])
   \<and> handleKeyEvent (InputHandler_init exact_fpu)
        \<lparr>ktype = KeyPress, key = Key_A, isAutoRepeat = False\<rparr>
       = (InputHandler_init exact_fpu, [])
   \<and> handleWheelEvent (InputHandler_init exact_fpu) \<lparr>angleDelta = \<lparr>xp = 0, yp = 240\<rparr>\<rparr>
       = (InputHandler_init exact_fpu, [])"
proof -
  have h: "\<not> m_inputCaptured (InputHandler_init exact_fpu)"
    by (simp add: InputHandler_init_def)
  show ?thesis
    using h uncaptured_input_ignored [OF h] by simp
qed

subsection \<open>Coordinates of the display widget\<close>

lemma exact_fpu_simps:
  "of_i exact_fpu = of_int" "fmul exact_fpu = (*)" "fdiv exact_fpu = (/)"
  "to_i exact_fpu q = (if 0 \<le> q then \<lfloor>q\<rfloor> else \<lceil>q\<rceil>)"
  "qRound exact_fpu q = (if 0 \<le> q then \<lfloor>q + 1 / 2\<rfloor> else \<lceil>q - 1 / 2\<rceil>)"
  by (simp_all add: exact_fpu_def)

lemma init_fields:
  "m_remoteResolution_d (RDPDisplayWidget_init F r) = \<lparr>wd = 1024, ht = 768\<rparr>"
  "m_zoomLevel_d (RDPDisplayWidget_init F r) = of_i F 1"
  "rect_w (RDPDisplayWidget_init F r) = r"
  by (simp_all add: RDPDisplayWidget_init_def)

lemma convert_centered:
  assumes "\<not> isEmpty (m_remoteResolution_d s)"
    and "scaled F (m_remoteResolution_d s) (m_zoomLevel_d s) = sz"
    and "wd sz < width (rect_w s)" and "ht sz < height (rect_w s)"
  shows "RDPDisplayWidget_convertToRemoteCoordinates F s p =
    \<lparr>xp = qBound 0 (to_i F (fdiv F (of_i F (xp p - cdiv (width (rect_w s) - wd sz) 2)) (m_zoomLevel_d s)))
            (wd (m_remoteResolution_d s) - 1),
     yp = qBound 0 (to_i F (fdiv F (of_i F (yp p - cdiv (height (rect_w s) - ht sz) 2)) (m_zoomLevel_d s)))
            (ht (m_remoteResolution_d s) - 1)\<rparr>"
  using assms
  by (simp add: RDPDisplayWidget_convertToRemoteCoordinates_def Let_def setX_def setY_def
      setWidth_def setHeight_def topLeft_def width_def height_def)

lemma scaled_default: "scaled exact_fpu \<lparr>wd = 1024, ht = 768\<rparr> (of_i exact_fpu 1) = \<lparr>wd = 1024, ht = 768\<rparr>"
  by (simp add: scaled_def exact_fpu_simps)

lemma qBound_range: "lo \<le> hi \<Longrightarrow> lo \<le> qBound lo v hi \<and> qBound lo v hi \<le> hi"
  by (simp add: qBound_def)

text \<open>
  Claim C9. For every point, \<open>RDPDisplayWidget::convertToRemoteCoordinates\<close> returns a
  point with x between 0 and the remote width minus 1 and y between 0 and the remote
  height minus 1 whenever the remote resolution is not empty, and returns the point it was
  given when the remote resolution is empty. This holds whatever the \<open>double\<close> operations
  compute, since the result is clamped after them.
\<close>

theorem convertToRemoteCoordinates_clamped:
  "(\<not> isEmpty (m_remoteResolution_d s) \<longrightarrow>
      0 \<le> xp (RDPDisplayWidget_convertToRemoteCoordinates F s p)
      \<and> xp (RDPDisplayWidget_convertToRemoteCoordinates F s p) \<le> wd (m_remoteResolution_d s) - 1
      \<and> 0 \<le> yp (RDPDisplayWidget_convertToRemoteCoordinates F s p)
      \<and> yp (RDPDisplayWidget_convertToRemoteCoordinates F s p) \<le> ht (m_remoteResolution_d s) - 1)
   \<and> (isEmpty (m_remoteResolution_d s) \<longrightarrow>
      RDPDisplayWidget_convertToRemoteCoordinates F s p = p)"
proof (cases "isEmpty (m_remoteResolution_d s)")
  case True
  then show ?thesis by (simp add: RDPDisplayWidget_convertToRemoteCoordinates_def)
next
  case False
  then have w: "0 \<le> wd (m_remoteResolution_d s) - 1" and h: "0 \<le> ht (m_remoteResolution_d s) - 1"
    by (simp_all add: isEmpty_def)
  from False show ?thesis
    using qBound_range [OF w] qBound_range [OF h]
    by (simp add: RDPDisplayWidget_convertToRemoteCoordinates_def Let_def)
qed

lemma convert_sample:
  "RDPDisplayWidget_convertToRemoteCoordinates exact_fpu
     (RDPDisplayWidget_init exact_fpu wide_rect) \<lparr>xp = 600, yp = 5000\<rparr> = \<lparr>xp = 112, yp = 767\<rparr>"
proof -
  let ?s = "RDPDisplayWidget_init exact_fpu wide_rect"
  have 1: "\<not> isEmpty (m_remoteResolution_d ?s)" by (simp add: init_fields isEmpty_def)
  have 2: "scaled exact_fpu (m_remoteResolution_d ?s) (m_zoomLevel_d ?s) = \<lparr>wd = 1024, ht = 768\<rparr>"
    by (simp add: init_fields scaled_default)
  have 3: "wd \<lparr>wd = 1024, ht = 768\<rparr> < width (rect_w ?s)" "ht \<lparr>wd = 1024, ht = 768\<rparr> < height (rect_w ?s)"
    by (simp_all add: init_fields wide_rect_def width_def height_def)
  show ?thesis
    unfolding convert_centered [OF 1 2 3]
    by (simp add: init_fields wide_rect_def width_def height_def cdiv_def qBound_def exact_fpu_simps)
qed

theorem convertToRemoteCoordinates_clamped_witness:
  "\<not> isEmpty (m_remoteResolution_d (RDPDisplayWidget_init exact_fpu wide_rect))
   \<and> RDPDisplayWidget_convertToRemoteCoordinates exact_fpu
        (RDPDisplayWidget_init exact_fpu wide_rect) \<lparr>xp = 600, yp = 5000\<rparr> = \<lparr>xp = 112, yp = 767\<rparr>
   \<and> wd (m_remoteResolution_d (RDPDisplayWidget_init exact_fpu wide_rect)) - 1 = 1023
   \<and> ht (m_remoteResolution_d (RDPDisplayWidget_init exact_fpu wide_rect)) - 1 = 767
   \<and> isEmpty (m_remoteResolution_d
        ((RDPDisplayWidget_init exact_fpu wide_rect)\<lparr>m_remoteResolution_d := \<lparr>wd = 0, ht = 768\<rparr>\<rparr>))
   \<and> RDPDisplayWidget_convertToRemoteCoordinates exact_fpu
        ((RDPDisplayWidget_init exact_fpu wide_rect)\<lparr>m_remoteResolution_d := \<lparr>wd = 0, ht = 768\<rparr>\<rparr>)
        \<lparr>xp = 600, yp = 5000\<rparr> = \<lparr>xp = 600, yp = 5000\<rparr>"
proof -
  let ?s = "RDPDisplayWidget_init exact_fpu wide_rect"
  let ?e = "?s\<lparr>m_remoteResolution_d := \<lparr>wd = 0, ht = 768\<rparr>\<rparr>"
  let ?p = "\<lparr>xp = 600, yp = 5000\<rparr>"
  have b: "\<not> isEmpty (m_remoteResolution_d ?s)" "isEmpty (m_remoteResolution_d ?e)"
    by (simp_all add: init_fields isEmpty_def)
  have c: "wd (m_remoteResolution_d ?s) - 1 = 1023" "ht (m_remoteResolution_d ?s) - 1 = 767"
    by (simp_all add: init_fields)
  show ?thesis
    using convert_sample b c convertToRemoteCoordinates_clamped [of ?s exact_fpu ?p]
      convertToRemoteCoordinates_clamped [of ?e exact_fpu ?p]
    by simp
qed

subsection \<open>Purity of the conversions\<close>




subsection \<open>The bridge\<close>

lemma map_of_jset [simp]: "map_of (jset k v obj) = (map_of obj)(k \<mapsto> v)"
  by (simp add: jset_def update_conv')

text \<open>
  Claim C3. Each of \<open>GoRDPBridge::sendMouseEvent\<close>, \<open>sendKeyEvent\<close> and
  \<open>sendWheelEvent\<close> sends a text message on the WebSocket exactly when the socket is in
  the connected state; the message is then a JSON object whose \<open>type\<close> is \<open>mouse\<close>,
  \<open>keyboard\<close> or \<open>wheel\<close> respectively; in any other socket state the call sends nothing
  and changes nothing.
\<close>

theorem send_events_only_when_connected:
  "((\<exists>m. WebSocketSendText m \<in> set (snd (GoRDPBridge_sendMouseEvent ws b x y btn pressed)))
       = (ws = ConnectedState))
   \<and> ((\<exists>m. WebSocketSendText m \<in> set (snd (GoRDPBridge_sendKeyEvent ws b k pressed)))
       = (ws = ConnectedState))
   \<and> ((\<exists>m. WebSocketSendText m \<in> set (snd (GoRDPBridge_sendWheelEvent ws b delta)))
       = (ws = ConnectedState))
   \<and> (ws = ConnectedState \<longrightarrow>
        (\<exists>obj. GoRDPBridge_sendMouseEvent ws b x y btn pressed = (b, [WebSocketSendText (JObject obj)])
               \<and> map_of obj ''type'' = Some (JString ''mouse''))
      \<and> (\<exists>obj. GoRDPBridge_sendKeyEvent ws b k pressed = (b, [WebSocketSendText (JObject obj)])
               \<and> map_of obj ''type'' = Some (JString ''keyboard''))
      \<and> (\<exists>obj. GoRDPBridge_sendWheelEvent ws b delta = (b, [WebSocketSendText (JObject obj)])
               \<and> map_of obj ''type'' = Some (JString ''wheel'')))
   \<and> (ws \<noteq> ConnectedState \<longrightarrow>
        GoRDPBridge_sendMouseEvent ws b x y btn pressed = (b, [])
      \<and> GoRDPBridge_sendKeyEvent ws b k pressed = (b, [])
      \<and> GoRDPBridge_sendWheelEvent ws b delta = (b, []))"
  by (simp add: GoRDPBridge_sendMouseEvent_def GoRDPBridge_sendKeyEvent_def
      GoRDPBridge_sendWheelEvent_def)

theorem send_events_only_when_connected_witness:
  "GoRDPBridge_sendMouseEvent ConnectedState running_bridge 3 4 1 True
     = (running_bridge, [WebSocketSendText (JObject [(''type'', JString ''mouse''), (''x'', JInt 3),
          (''y'', JInt 4), (''button'', JInt 1), (''pressed'', JBool True)])])
   \<and> GoRDPBridge_sendKeyEvent ConnectedState running_bridge 65 True
     = (running_bridge, [WebSocketSendText (JObject [(''type'', JString ''keyboard''),
          (''key'', JInt 65), (''pressed'', JBool True)])])
   \<and> GoRDPBridge_sendWheelEvent ConnectedState running_bridge 2
     = (running_bridge, [WebSocketSendText (JObject [(''type'', JString ''wheel''),
          (''delta'', JInt 2)])])
   \<and> GoRDPBridge_sendMouseEvent ClosingState running_bridge 3 4 1 True = (running_bridge, [])
   \<and> GoRDPBridge_sendKeyEvent ClosingState running_bridge 65 True = (running_bridge, [])
   \<and> GoRDPBridge_sendWheelEvent ClosingState running_bridge 2 = (running_bridge, [])"
  using send_events_only_when_connected
      [of ConnectedState running_bridge 3 4 1 True 65 2]
    send_events_only_when_connected
      [of ClosingState running_bridge 3 4 1 True 65 2]
  by (simp add: GoRDPBridge_sendMouseEvent_def GoRDPBridge_sendKeyEvent_def
      GoRDPBridge_sendWheelEvent_def jset_def)

lemma number_8080: "number 8080 = ''8080''"
  by (simp add: number_def digit_char_def)

lemma path_found: "getGoRDPExecutablePath found_env = ''/usr/bin/gordp-api''"
  by (simp add: getGoRDPExecutablePath_def found_env_def trimmed_def is_space_def)

lemma path_missing: "getGoRDPExecutablePath missing_env = []"
  by (simp add: getGoRDPExecutablePath_def missing_env_def)

lemma path_broken: "getGoRDPExecutablePath broken_env = ''./gordp-api''"
  by (simp add: getGoRDPExecutablePath_def broken_env_def)

text \<open>
  Claim C4. \<open>GoRDPBridge::startGoRDPAPI\<close> does nothing when the API is already running;
  emits \<open>apiError("GoRDP executable not found")\<close> and starts no process when no executable
  is found; otherwise starts the executable with the arguments \<open>--api --port <port>\<close> and,
  when the start succeeds, sets the running flag, opens the WebSocket to
  \<open>ws://localhost:<port>/ws\<close> and emits \<open>apiStarted\<close>, and when it fails emits
  \<open>apiError("Failed to start GoRDP API server")\<close> with the running flag still false.
\<close>

theorem startGoRDPAPI_outcomes:
  "(m_apiRunning b \<longrightarrow> startGoRDPAPI env b = (b, []))
   \<and> (\<not> m_apiRunning b \<and> getGoRDPExecutablePath env = [] \<longrightarrow>
        startGoRDPAPI env b = (b, [Emit (apiError ''GoRDP executable not found'')]))
   \<and> (\<not> m_apiRunning b \<and> getGoRDPExecutablePath env \<noteq> []
        \<and> waitForStarted env (getGoRDPExecutablePath env) [''--api'', ''--port'', number (m_apiPort b)]
      \<longrightarrow> startGoRDPAPI env b =
            (b\<lparr>m_apiRunning := True\<rparr>,
             [ProcessStart (getGoRDPExecutablePath env) [''--api'', ''--port'', number (m_apiPort b)],
              WebSocketOpen (''ws://localhost:'' @ number (m_apiPort b) @ ''/ws''),
              Emit apiStarted]))
   \<and> (\<not> m_apiRunning b \<and> getGoRDPExecutablePath env \<noteq> []
        \<and> \<not> waitForStarted env (getGoRDPExecutablePath env) [''--api'', ''--port'', number (m_apiPort b)]
      \<longrightarrow> startGoRDPAPI env b =
            (b, [ProcessStart (getGoRDPExecutablePath env) [''--api'', ''--port'', number (m_apiPort b)],
                 Emit (apiError ''Failed to start GoRDP API server'')])
          \<and> \<not> m_apiRunning (fst (startGoRDPAPI env b)))"
  by (simp add: startGoRDPAPI_def setupWebSocket_def Let_def)

theorem startGoRDPAPI_outcomes_witness:
  "startGoRDPAPI found_env running_bridge = (running_bridge, [])
   \<and> startGoRDPAPI missing_env GoRDPBridge_init
       = (GoRDPBridge_init, [Emit (apiError ''GoRDP executable not found'')])
   \<and> startGoRDPAPI found_env GoRDPBridge_init
       = (running_bridge,
          [ProcessStart ''/usr/bin/gordp-api'' [''--api'', ''--port'', ''8080''],
           WebSocketOpen ''ws://localhost:8080/ws'', Emit apiStarted])
   \<and> startGoRDPAPI broken_env GoRDPBridge_init
       = (GoRDPBridge_init,
          [ProcessStart ''./gordp-api'' [''--api'', ''--port'', ''8080''],
           Emit (apiError ''Failed to start GoRDP API server'')])"
proof -
  have p: "m_apiPort GoRDPBridge_init = 8080" "\<not> m_apiRunning GoRDPBridge_init"
    "m_apiRunning running_bridge"
    by (simp_all add: GoRDPBridge_init_def running_bridge_def)
  have w: "waitForStarted found_env pa ar" "\<not> waitForStarted broken_env pa ar" for pa ar
    by (simp_all add: found_env_def broken_env_def)
  show ?thesis
    using startGoRDPAPI_outcomes [of running_bridge found_env]
      startGoRDPAPI_outcomes [of GoRDPBridge_init missing_env]
      startGoRDPAPI_outcomes [of GoRDPBridge_init found_env]
      startGoRDPAPI_outcomes [of GoRDPBridge_init broken_env]
    by (simp add: p w path_found path_missing path_broken number_8080 running_bridge_def)
qed

text \<open>
  Claim C8. \<open>GoRDPBridge::stopGoRDPAPI\<close> terminates the engine process whenever it is not
  in the state \<open>NotRunning\<close>, kills it when the wait of 5000 ms does not see it finish,
  closes the WebSocket, clears the running and connected flags and emits \<open>apiStopped\<close>;
  the flags are clear afterwards whatever the bridge and the process were before.
\<close>

theorem stopGoRDPAPI_postconditions:
  "fst (stopGoRDPAPI pstate waitForFinished b) = b\<lparr>m_apiRunning := False, m_isConnected := False\<rparr>
   \<and> \<not> m_apiRunning (fst (stopGoRDPAPI pstate waitForFinished b))
   \<and> \<not> m_isConnected (fst (stopGoRDPAPI pstate waitForFinished b))
   \<and> (pstate = NotRunning \<longrightarrow>
        snd (stopGoRDPAPI pstate waitForFinished b) = [WebSocketClose, Emit apiStopped])
   \<and> (pstate \<noteq> NotRunning \<and> waitForFinished 5000 \<longrightarrow>
        snd (stopGoRDPAPI pstate waitForFinished b)
          = [ProcessTerminate, WebSocketClose, Emit apiStopped])
   \<and> (pstate \<noteq> NotRunning \<and> \<not> waitForFinished 5000 \<longrightarrow>
        snd (stopGoRDPAPI pstate waitForFinished b)
          = [ProcessTerminate, ProcessKill, WebSocketClose, Emit apiStopped])"
  by (simp add: stopGoRDPAPI_def)

theorem stopGoRDPAPI_postconditions_witness:
  "stopGoRDPAPI NotRunning quick_exit GoRDPBridge_init
      = (GoRDPBridge_init, [WebSocketClose, Emit apiStopped])
   \<and> stopGoRDPAPI Running quick_exit (running_bridge\<lparr>m_isConnected := True\<rparr>)
      = (GoRDPBridge_init, [ProcessTerminate, WebSocketClose, Emit apiStopped])
   \<and> stopGoRDPAPI Running slow_exit (running_bridge\<lparr>m_isConnected := True\<rparr>)
      = (GoRDPBridge_init, [ProcessTerminate, ProcessKill, WebSocketClose, Emit apiStopped])"
  using stopGoRDPAPI_postconditions [of NotRunning quick_exit GoRDPBridge_init]
    stopGoRDPAPI_postconditions
      [of Running quick_exit "running_bridge\<lparr>m_isConnected := True\<rparr>"]
    stopGoRDPAPI_postconditions
      [of Running slow_exit "running_bridge\<lparr>m_isConnected := True\<rparr>"]
  by (simp add: prod_eq_iff quick_exit_def slow_exit_def running_bridge_def GoRDPBridge_init_def)

text \<open>
  Claim C5. On a reply with a network error, and on a reply whose body does not parse as
  JSON, \<open>GoRDPBridge::onNetworkReplyFinished\<close> emits exactly one \<open>connectionError\<close> (with
  the reply's error string, or \<open>Invalid JSON response\<close>), leaves the bridge unchanged, does
  not hand the response on, and posts no request again: the only other action is the
  release of the reply object.
\<close>

theorem onNetworkReplyFinished_failures:
  "(error reply \<noteq> NoError \<longrightarrow>
      onNetworkReplyFinished fromJson b reply
        = (b, [ReplyDeleteLater, Emit (connectionError (errorString reply))]))
   \<and> (error reply = NoError \<and> snd (fromJson (readAll reply)) \<noteq> NoParseError \<longrightarrow>
      onNetworkReplyFinished fromJson b reply
        = (b, [ReplyDeleteLater, Emit (connectionError ''Invalid JSON response'')]))"
  by (simp add: onNetworkReplyFinished_def split: prod.split)

theorem onNetworkReplyFinished_failures_witness:
  "onNetworkReplyFinished sample_fromJson running_bridge refused_reply
      = (running_bridge, [ReplyDeleteLater, Emit (connectionError ''Connection refused'')])
   \<and> onNetworkReplyFinished sample_fromJson running_bridge garbled_reply
      = (running_bridge, [ReplyDeleteLater, Emit (connectionError ''Invalid JSON response'')])"
  using onNetworkReplyFinished_failures [of refused_reply sample_fromJson running_bridge]
    onNetworkReplyFinished_failures [of garbled_reply sample_fromJson running_bridge]
  by (simp add: refused_reply_def garbled_reply_def sample_fromJson_def)

text \<open>
  Claim C6. When the API is not running, \<open>GoRDPBridge::connectToServer\<close> emits
  \<open>connectionError("GoRDP API not running")\<close>, posts nothing and records nothing. When it
  is running, the call records server, port and user name and posts to
  \<open>m_apiUrl + "/api/connect"\<close> a JSON object with the fields \<open>server\<close>, \<open>port\<close>,
  \<open>username\<close> and \<open>password\<close>, and with the field \<open>options\<close> exactly when the options
  object is not empty.
\<close>

theorem connectToServer_request:
  "(\<not> m_apiRunning b \<longrightarrow>
      connectToServer b server port username password options
        = (b, [Emit (connectionError ''GoRDP API not running'')]))
   \<and> (m_apiRunning b \<longrightarrow>
      (\<exists>obj. connectToServer b server port username password options
          = (b\<lparr>m_currentServer := server, m_currentPort := port, m_currentUsername := username\<rparr>,
             [HttpPost (m_apiUrl b @ ''/api/connect'') ''application/json'' (JObject obj)])
        \<and> map_of obj ''server'' = Some (JString server)
        \<and> map_of obj ''port'' = Some (JInt port)
        \<and> map_of obj ''username'' = Some (JString username)
        \<and> map_of obj ''password'' = Some (JString password)
        \<and> map_of obj ''options'' = (if options = [] then None else Some (JObject options))
        \<and> dom (map_of obj) \<subseteq> {''server'', ''port'', ''username'', ''password'', ''options''}))"
  by (auto simp: connectToServer_def sendHttpRequest_def Let_def)

theorem connectToServer_request_witness:
  "connectToServer GoRDPBridge_init ''host'' 3389 ''alice'' ''secret'' []
      = (GoRDPBridge_init, [Emit (connectionError ''GoRDP API not running'')])
   \<and> connectToServer running_bridge ''host'' 3389 ''alice'' ''secret'' []
      = (running_bridge\<lparr>m_currentServer := ''host'', m_currentPort := 3389,
            m_currentUsername := ''alice''\<rparr>,
         [HttpPost ''http://localhost:8080/api/connect'' ''application/json''
            (JObject [(''server'', JString ''host''), (''port'', JInt 3389),
               (''username'', JString ''alice''), (''password'', JString ''secret'')])])
   \<and> connectToServer running_bridge ''host'' 3389 ''alice'' ''secret'' [(''fullscreen'', JBool True)]
      = (running_bridge\<lparr>m_currentServer := ''host'', m_currentPort := 3389,
            m_currentUsername := ''alice''\<rparr>,
         [HttpPost ''http://localhost:8080/api/connect'' ''application/json''
            (JObject [(''server'', JString ''host''), (''port'', JInt 3389),
               (''username'', JString ''alice''), (''password'', JString ''secret''),
               (''options'', JObject [(''fullscreen'', JBool True)])])])"
  using connectToServer_request [of GoRDPBridge_init "''host''" 3389 "''alice''" "''secret''" "[]"]
    connectToServer_request [of running_bridge "''host''" 3389 "''alice''" "''secret''" "[]"]
    connectToServer_request [of running_bridge "''host''" 3389 "''alice''" "''secret''"
      "[(''fullscreen'', JBool True)]"]
  by (simp add: connectToServer_def sendHttpRequest_def jset_def running_bridge_def
      GoRDPBridge_init_def number_def digit_char_def)

text \<open>
  Claim C2, as stated: the GUI never decodes image data, and every binary message from the
  engine is forwarded as an opaque payload. The code does otherwise. A message that the
  image reader rejects is not forwarded at all: the three bytes \<open>RDP\<close> are no image in any
  format (Qt's reader rejects them as the sample reader does), \<open>decodeBitmapData\<close> returns
  the null image, and the handler emits nothing.
\<close>

theorem binary_message_not_forwarded:
  "onWebSocketBinaryMessageReceived sample_fromData running_bridge [0x52, 0x44, 0x50]
      = (running_bridge, [])"
  by (simp add: onWebSocketBinaryMessageReceived_def decodeBitmapData_def loadFromData_def
      isNull_def sample_fromData_def)

text \<open>
  Claim C2, amended. \<open>GoRDPBridge::onWebSocketBinaryMessageReceived\<close> hands each binary
  message to the toolkit's image reader (\<open>QImage::loadFromData\<close>); the bridge has no RDP
  bitmap decoder of its own. When the reader yields an image, exactly one
  \<open>bitmapReceived\<close> carrying that decoded image is emitted; when it yields the null image
  the message is dropped and nothing is emitted. The bridge is unchanged either way.
\<close>

theorem binary_message_decoded_or_dropped:
  "onWebSocketBinaryMessageReceived fromData b message
     = (b, case fromData message of NullImage \<Rightarrow> []
           | Image w h px \<Rightarrow> [Emit (bitmapReceived (Image w h px))])"
  by (simp add: onWebSocketBinaryMessageReceived_def decodeBitmapData_def loadFromData_def
      isNull_def split: QImage.split)

theorem binary_message_decoded_or_dropped_witness:
  "onWebSocketBinaryMessageReceived sample_fromData GoRDPBridge_init [0x01, 0x01, 0x80]
      = (GoRDPBridge_init, [Emit (bitmapReceived (Image 1 1 [0xFF808080]))])
   \<and> onWebSocketBinaryMessageReceived sample_fromData GoRDPBridge_init []
      = (GoRDPBridge_init, [])"
  using binary_message_decoded_or_dropped [of sample_fromData GoRDPBridge_init "[0x01, 0x01, 0x80]"]
    binary_message_decoded_or_dropped [of sample_fromData GoRDPBridge_init "[]"]
  by (simp add: sample_fromData_def)

end
